theory Spec2Isabelle
  imports Main "HOL-Library.Word" "HOL-Library.Multiset" "HOL-Library.Monad_Syntax"
begin

section \<open>Pulse Planner: the task store of \<open>TaskApp\<close>\<close>

text \<open>
  The component \<open>TaskApp\<close> keeps its tasks in React state and changes them through
  \<open>addTask\<close>, \<open>updateTask\<close>, \<open>toggleComplete\<close> and \<open>deleteTask\<close>; the list shown on
  screen is \<open>filteredTasks\<close>. Each handler is embedded as a function from the component
  state (and the results of the platform calls it awaits) to the new state and the list
  of effects it performs, in program order.
\<close>

subsection \<open>Strings\<close>

text \<open>
  A JavaScript string is a sequence of UTF-16 code units. \<open>String.prototype.trim\<close> removes
  the code units of the ECMAScript productions WhiteSpace and LineTerminator from both
  ends. The constant messages of the source (alert titles, log prefixes, property names)
  are written as Isabelle string literals.
\<close>

type_synonym jsstring = "16 word list"

definition white_space :: "16 word list" where
  "white_space =
     [0x0009, 0x000A, 0x000B, 0x000C, 0x000D, 0x0020, 0x00A0, 0x1680,
      0x2000, 0x2001, 0x2002, 0x2003, 0x2004, 0x2005, 0x2006, 0x2007,
      0x2008, 0x2009, 0x200A, 0x2028, 0x2029, 0x202F, 0x205F, 0x3000, 0xFEFF]"

definition is_white_space :: "16 word \<Rightarrow> bool" where
  "is_white_space c = (c \<in> set white_space)"

definition trim :: "jsstring \<Rightarrow> jsstring" where
  "trim s = rev (dropWhile is_white_space (rev (dropWhile is_white_space s)))"

text \<open>Truthiness of a string value: every string but the empty one.\<close>

definition truthy_string :: "jsstring \<Rightarrow> bool" where
  "truthy_string s = (s \<noteq> [])"

subsection \<open>The data model\<close>

text \<open>
  \<open>type Task\<close> of the source. A \<open>Date\<close> is represented by its time value, the number of
  milliseconds since 1970-01-01T00:00:00Z (what \<open>getTime()\<close> returns); an optional
  property that is \<open>undefined\<close> is \<open>None\<close>. The date picker and the loader applied to
  what the application saved only produce valid dates, and the model has no
  \<open>Invalid Date\<close>.
\<close>

datatype priority = Low | Medium | High

record Task =
  task_id :: int
  task_text :: jsstring
  completed :: bool
  priority :: priority
  category :: jsstring
  reminderDate :: "int option"
  notificationId :: "jsstring option"

text \<open>The \<open>useState\<close> cells of \<open>TaskApp\<close> that the handlers read and write.\<close>

record app =
  task :: jsstring
  tasks :: "Task list"
  sel_priority :: priority
  sel_category :: jsstring
  sel_reminderDate :: "int option"
  editingTask :: "Task option"

text \<open>The values of the \<open>filter\<close> and \<open>sortBy\<close> cells.\<close>

datatype filter_mode = Filter_All | Filter_Completed | Filter_Pending

datatype sort_mode = Sort_None | Sort_Priority | Sort_Date

subsection \<open>Platform calls and effects\<close>

text \<open>
  A thrown exception or a rejected promise is \<open>Inl\<close> of the error, a normal result is
  \<open>Inr\<close>. The record \<open>env\<close> holds what the platform answers during one handler call:
  the two clock readings (\<open>Date.now()\<close> and \<open>new Date()\<close>), the outcome of
  \<open>Notifications.scheduleNotificationAsync\<close> and the outcome of
  \<open>Notifications.cancelScheduledNotificationAsync\<close>.
\<close>

type_synonym js_error = string

record env =
  date_now :: int
  new_date :: int
  schedule_result :: "js_error + jsstring"
  cancel_result :: "js_error + unit"

text \<open>
  What a handler does to the outside, in order: alerts (title, message), error logs
  (prefix, error), and the requests sent to the notification service. A schedule request
  carries the body, the \<open>taskId\<close> of its data and the trigger date.
\<close>

datatype effect =
    Alert string string
  | ConsoleError string js_error
  | ScheduleNotification jsstring int int
  | CancelNotification jsstring

subsection \<open>The handlers\<close>

definition resetForm :: "app \<Rightarrow> app" where
  "resetForm st = st\<lparr>task := [], sel_category := [], sel_priority := Low,
                     sel_reminderDate := None\<rparr>"

text \<open>
  The body of the \<open>try\<close> block of \<open>addTask\<close>: the notification is requested when the
  reminder is strictly later than \<open>new Date()\<close>; a rejection leaves the block before
  \<open>setTasks\<close> and \<open>resetForm\<close> are reached.
\<close>

definition addTask_try :: "env \<Rightarrow> app \<Rightarrow> Task \<Rightarrow> effect list \<times> (js_error + app)" where
  "addTask_try e st newTask =
     (case sel_reminderDate st of
        None \<Rightarrow> ([], Inr (resetForm (st\<lparr>tasks := tasks st @ [newTask]\<rparr>)))
      | Some d \<Rightarrow>
          if d > new_date e then
            (case schedule_result e of
               Inl err \<Rightarrow> ([ScheduleNotification (trim (task st)) (task_id newTask) d], Inl err)
             | Inr nid \<Rightarrow>
                 ([ScheduleNotification (trim (task st)) (task_id newTask) d],
                  Inr (resetForm
                    (st\<lparr>tasks := tasks st @ [newTask\<lparr>notificationId := Some nid\<rparr>]\<rparr>))))
          else ([], Inr (resetForm (st\<lparr>tasks := tasks st @ [newTask]\<rparr>))))"

definition addTask :: "env \<Rightarrow> app \<Rightarrow> app \<times> effect list" where
  "addTask e st =
     (if \<not> truthy_string (trim (task st)) then
        (st, [Alert ''Error'' ''Task text cannot be empty''])
      else
        let newTask = \<lparr>task_id = date_now e, task_text = trim (task st), completed = False,
                       priority = sel_priority st, category = trim (sel_category st),
                       reminderDate = sel_reminderDate st, notificationId = None\<rparr>
        in (case addTask_try e st newTask of
              (fx, Inr st') \<Rightarrow> (st', fx)
            | (fx, Inl err) \<Rightarrow>
                (st, fx @ [ConsoleError ''Error adding task:'' err,
                           Alert ''Error'' ''Failed to add task''])))"

text \<open>
  A property read as a condition (\<open>editingTask.notificationId\<close>,
  \<open>taskToDelete?.notificationId\<close>): \<open>undefined\<close> and the empty string are falsy.
\<close>

definition truthy_id :: "jsstring option \<Rightarrow> jsstring option" where
  "truthy_id n = (case n of None \<Rightarrow> None | Some s \<Rightarrow> if truthy_string s then Some s else None)"

text \<open>
  The \<open>try\<close> block of \<open>updateTask\<close>: cancel the old notification, schedule the new
  one, replace the fields of every task whose id is that of \<open>editingTask\<close>, leave
  editing mode and reset the form. The first rejection leaves the block.
\<close>

definition updateTask_try :: "env \<Rightarrow> app \<Rightarrow> Task \<Rightarrow> effect list \<times> (js_error + app)" where
  "updateTask_try e st et =
     (let cancelled =
            (case truthy_id (notificationId et) of
               None \<Rightarrow> ([], Inr ())
             | Some n \<Rightarrow> ([CancelNotification n], cancel_result e))
      in case cancelled of
           (fx1, Inl err) \<Rightarrow> (fx1, Inl err)
         | (fx1, Inr _) \<Rightarrow>
             (let scheduled =
                    (case sel_reminderDate st of
                       None \<Rightarrow> ([], Inr None)
                     | Some d \<Rightarrow>
                         if d > new_date e then
                           ([ScheduleNotification (trim (task st)) (task_id et) d],
                            (case schedule_result e of
                               Inl err \<Rightarrow> Inl err
                             | Inr newNotificationId \<Rightarrow> Inr (Some newNotificationId)))
                         else ([], Inr None))
              in case scheduled of
                   (fx2, Inl err) \<Rightarrow> (fx1 @ fx2, Inl err)
                 | (fx2, Inr nid) \<Rightarrow>
                     (fx1 @ fx2,
                      Inr (resetForm
                        (st\<lparr>tasks :=
                              map (\<lambda>t. if task_id t = task_id et
                                        then t\<lparr>task_text := trim (task st),
                                               priority := sel_priority st,
                                               category := trim (sel_category st),
                                               reminderDate := sel_reminderDate st,
                                               notificationId := nid\<rparr>
                                        else t)
                                (tasks st),
                            editingTask := None\<rparr>)))))"

definition updateTask :: "env \<Rightarrow> app \<Rightarrow> app \<times> effect list" where
  "updateTask e st =
     (case editingTask st of
        None \<Rightarrow> (st, [])
      | Some et \<Rightarrow>
          if \<not> truthy_string (trim (task st)) then (st, [])
          else
            (case updateTask_try e st et of
               (fx, Inr st') \<Rightarrow> (st', fx)
             | (fx, Inl err) \<Rightarrow>
                 (st, fx @ [ConsoleError ''Error updating task:'' err,
                            Alert ''Error'' ''Failed to update task''])))"

definition toggleComplete :: "int \<Rightarrow> app \<Rightarrow> app" where
  "toggleComplete i st =
     st\<lparr>tasks := map (\<lambda>t. if task_id t = i then t\<lparr>completed := \<not> completed t\<rparr> else t)
                     (tasks st)\<rparr>"

text \<open>
  \<open>deleteTask\<close> has no \<open>try\<close>: when the awaited cancellation rejects, the function
  ends there with that rejection (third component \<open>Inl\<close>) and \<open>setTasks\<close> is not
  reached.
\<close>

definition deleteTask :: "env \<Rightarrow> int \<Rightarrow> app \<Rightarrow> app \<times> effect list \<times> (js_error + unit)" where
  "deleteTask e i st =
     (let taskToDelete = find (\<lambda>t. task_id t = i) (tasks st);
          removed = st\<lparr>tasks := filter (\<lambda>t. task_id t \<noteq> i) (tasks st)\<rparr>
      in case truthy_id (case taskToDelete of None \<Rightarrow> None | Some t \<Rightarrow> notificationId t) of
           None \<Rightarrow> (removed, [], Inr ())
         | Some n \<Rightarrow>
             (case cancel_result e of
                Inl err \<Rightarrow> (st, [CancelNotification n], Inl err)
              | Inr _ \<Rightarrow> (removed, [CancelNotification n], Inr ())))"

definition startEditing :: "Task \<Rightarrow> app \<Rightarrow> app" where
  "startEditing t st =
     st\<lparr>editingTask := Some t, task := task_text t, sel_priority := priority t,
        sel_category := category t, sel_reminderDate := reminderDate t\<rparr>"

subsection \<open>A session of adds\<close>

text \<open>
  \<open>addTask\<close> is an \<open>async\<close> function. It runs up to its \<open>await\<close> when the add button
  is pressed, and the rest runs when the scheduling call settles; an add with nothing
  to schedule has no \<open>await\<close> and runs to its end at the press. Other presses can come
  in between. The part after the \<open>await\<close> still reads the \<open>tasks\<close> of the render in
  which the button was pressed: \<open>setTasks([...tasks, newTask])\<close> writes that list with
  the new task appended, over whatever the collection holds by then. The setters write
  the current state.

  A \<open>draft\<close> is what the user enters before a press (\<open>setTask\<close>, \<open>setPriority\<close>,
  \<open>setCategory\<close>, \<open>setReminderDate\<close>). A session is the current state, the calls of
  \<open>addTask\<close> that wait at their \<open>await\<close> (each with the state of its render and the
  platform's answers to it), and the effects so far. The component is rendered again
  after every change of state, so a press runs the handler of the current state.
\<close>

record draft =
  draft_text :: jsstring
  draft_priority :: priority
  draft_category :: jsstring
  draft_reminderDate :: "int option"

definition fill_form :: "draft \<Rightarrow> app \<Rightarrow> app" where
  "fill_form d st = st\<lparr>task := draft_text d, sel_priority := draft_priority d,
                       sel_category := draft_category d,
                       sel_reminderDate := draft_reminderDate d\<rparr>"

text \<open>The object that \<open>addTask\<close> builds before its \<open>try\<close> block.\<close>

definition new_Task :: "env \<Rightarrow> app \<Rightarrow> Task" where
  "new_Task e st =
     \<lparr>task_id = date_now e, task_text = trim (task st), completed = False,
      priority = sel_priority st, category = trim (sel_category st),
      reminderDate = sel_reminderDate st, notificationId = None\<rparr>"

record session =
  current :: app
  awaiting :: "(app \<times> env) list"
  console :: "effect list"

datatype event =
    Press env draft
  | Settle nat

text \<open>
  \<open>Press e d\<close>: the user enters \<open>d\<close> and presses the add button; \<open>e\<close> holds the
  platform's answers to this call. \<open>Settle i\<close>: the scheduling call of the \<open>i\<close>-th
  waiting add settles, with the outcome that its answers hold.
\<close>

fun step :: "event \<Rightarrow> session \<Rightarrow> session" where
  "step (Press e d) s =
     (let st = fill_form d (current s);
          appended = s\<lparr>current := resetForm (st\<lparr>tasks := tasks st @ [new_Task e st]\<rparr>)\<rparr>
      in if \<not> truthy_string (trim (task st)) then
           s\<lparr>current := st,
             console := console s @ [Alert ''Error'' ''Task text cannot be empty'']\<rparr>
         else
           (case sel_reminderDate st of
              None \<Rightarrow> appended
            | Some r \<Rightarrow>
                if r > new_date e then
                  s\<lparr>current := st, awaiting := awaiting s @ [(st, e)],
                    console := console s
                      @ [ScheduleNotification (trim (task st)) (date_now e) r]\<rparr>
                else appended))"
| "step (Settle i) s =
     (if i < length (awaiting s) then
        (case awaiting s ! i of
           (st, e) \<Rightarrow>
             (case schedule_result e of
                Inl err \<Rightarrow>
                  s\<lparr>awaiting := take i (awaiting s) @ drop (Suc i) (awaiting s),
                    console := console s
                      @ [ConsoleError ''Error adding task:'' err,
                         Alert ''Error'' ''Failed to add task'']\<rparr>
              | Inr nid \<Rightarrow>
                  s\<lparr>current :=
                      resetForm ((current s)
                        \<lparr>tasks := tasks st @ [(new_Task e st)\<lparr>notificationId := Some nid\<rparr>]\<rparr>),
                    awaiting := take i (awaiting s) @ drop (Suc i) (awaiting s)\<rparr>))
      else s)"

fun run_events :: "event list \<Rightarrow> session \<Rightarrow> session" where
  "run_events [] s = s"
| "run_events (ev # evs) s = run_events evs (step ev s)"





subsection \<open>The displayed list\<close>

text \<open>
  \<open>Array.prototype.sort\<close> is stable. With a comparator that is consistent, as the one
  of the source is (it is a difference of keys), the result is the one of a stable
  insertion sort: each element is put before the first element that it does not
  follow (comparator result \<open>\<le> 0\<close>), starting from the right end.
\<close>

fun insert_sorted :: "('a \<Rightarrow> 'a \<Rightarrow> int) \<Rightarrow> 'a \<Rightarrow> 'a list \<Rightarrow> 'a list" where
  "insert_sorted cmp x [] = [x]"
| "insert_sorted cmp x (y # ys) =
     (if cmp x y \<le> 0 then x # y # ys else y # insert_sorted cmp x ys)"

definition array_sort :: "('a \<Rightarrow> 'a \<Rightarrow> int) \<Rightarrow> 'a list \<Rightarrow> 'a list" where
  "array_sort cmp xs = foldr (insert_sorted cmp) xs []"

definition keep :: "filter_mode \<Rightarrow> Task \<Rightarrow> bool" where
  "keep f t =
     (if f = Filter_Completed then completed t
      else if f = Filter_Pending then \<not> completed t
      else True)"

fun priorityOrder :: "priority \<Rightarrow> int" where
  "priorityOrder High = 3"
| "priorityOrder Medium = 2"
| "priorityOrder Low = 1"

text \<open>\<open>a.reminderDate?.getTime() || 0\<close>: a missing date and the time value 0 give 0.\<close>

definition getTime_or_0 :: "Task \<Rightarrow> int" where
  "getTime_or_0 a =
     (case reminderDate a of None \<Rightarrow> 0 | Some d \<Rightarrow> if d \<noteq> 0 then d else 0)"

definition compareFn :: "sort_mode \<Rightarrow> Task \<Rightarrow> Task \<Rightarrow> int" where
  "compareFn s a b =
     (if s = Sort_Priority then priorityOrder (priority b) - priorityOrder (priority a)
      else if s = Sort_Date then getTime_or_0 a - getTime_or_0 b
      else 0)"

definition filteredTasks :: "filter_mode \<Rightarrow> sort_mode \<Rightarrow> Task list \<Rightarrow> Task list" where
  "filteredTasks f s ts = array_sort (compareFn s) (filter (keep f) ts)"

text \<open>
  The same computation on a store of arrays, where aliasing shows: an array is an
  index into the store, \<open>filter\<close> allocates its result as a new array, and \<open>sort\<close>
  sorts the array it is called on in place and returns it. A reference outside the
  store does not occur in the program and gives \<open>None\<close>.
\<close>

type_synonym store = "Task list list"

definition Array_filter :: "(Task \<Rightarrow> bool) \<Rightarrow> nat \<Rightarrow> store \<Rightarrow> (nat \<times> store) option" where
  "Array_filter p a h =
     (if a < length h then Some (length h, h @ [filter p (h ! a)]) else None)"

definition Array_sort :: "(Task \<Rightarrow> Task \<Rightarrow> int) \<Rightarrow> nat \<Rightarrow> store \<Rightarrow> (nat \<times> store) option" where
  "Array_sort cmp a h =
     (if a < length h then Some (a, h[a := array_sort cmp (h ! a)]) else None)"

definition filteredTasks_store ::
  "filter_mode \<Rightarrow> sort_mode \<Rightarrow> nat \<Rightarrow> store \<Rightarrow> (nat \<times> store) option" where
  "filteredTasks_store f s a h =
     (case Array_filter (keep f) a h of
        None \<Rightarrow> None
      | Some (a1, h1) \<Rightarrow> Array_sort (compareFn s) a1 h1)"

text \<open>The two orders that the sorted list is meant to have.\<close>

definition present_dates :: "Task list \<Rightarrow> int list" where
  "present_dates ts = concat (map (\<lambda>t. case reminderDate t of None \<Rightarrow> [] | Some d \<Rightarrow> [d]) ts)"

definition has_reminder :: "Task \<Rightarrow> bool" where
  "has_reminder t = (reminderDate t \<noteq> None)"

fun undated_first :: "Task list \<Rightarrow> bool" where
  "undated_first [] = True"
| "undated_first (t # ts) =
     ((has_reminder t \<longrightarrow> list_all has_reminder ts) \<and> undated_first ts)"

subsection \<open>Persistence\<close>














subsection \<open>Sample data\<close>

text \<open>Four tasks, used where a property is run on a concrete collection. The first has
  a scheduled notification \<open>n1\<close>.\<close>

definition sample_tasks :: "Task list" where
  "sample_tasks =
     [\<lparr>task_id = 1, task_text = [0x61], completed = False, priority = Medium, category = [],
      reminderDate = Some 1700000600000, notificationId = Some [0x6E, 0x31]\<rparr>,
      \<lparr>task_id = 2, task_text = [0x62], completed = True, priority = High, category = [],
      reminderDate = None, notificationId = None\<rparr>,
      \<lparr>task_id = 3, task_text = [0x63], completed = False, priority = Medium, category = [],
      reminderDate = Some 1700000300000, notificationId = None\<rparr>,
      \<lparr>task_id = 4, task_text = [0x64], completed = False, priority = High, category = [],
      reminderDate = None, notificationId = None\<rparr>]"







section \<open>Properties\<close>

subsection \<open>Adding a task\<close>

text \<open>
  C7. An add whose draft text is empty after trimming is refused: the only effect is the
  alert \<open>Task text cannot be empty\<close>, and the whole component state, the task collection
  included, is what it was.
\<close>

theorem addTask_blank_rejected:
  assumes "trim (task st) = []"
  shows "addTask e st = (st, [Alert ''Error'' ''Task text cannot be empty''])"
  using assms by (simp add: addTask_def truthy_string_def)

theorem addTask_blank_rejected_witness:
  "trim [0x0020, 0x0009, 0x00A0] = []
   \<and> addTask \<lparr>date_now = 1700000000000, new_date = 1700000000001,
               schedule_result = Inr [0x006E], cancel_result = Inr ()\<rparr>
        \<lparr>task = [0x0020, 0x0009, 0x00A0], tasks = [], sel_priority = Low,
         sel_category = [], sel_reminderDate = None, editingTask = None\<rparr>
     = (\<lparr>task = [0x0020, 0x0009, 0x00A0], tasks = [], sel_priority = Low,
         sel_category = [], sel_reminderDate = None, editingTask = None\<rparr>,
        [Alert ''Error'' ''Task text cannot be empty''])"
proof -
  have blank: "trim [0x0020, 0x0009, 0x00A0] = []"
    by (simp add: trim_def is_white_space_def white_space_def)
  show ?thesis
    using blank addTask_blank_rejected
      [of "\<lparr>task = [0x0020, 0x0009, 0x00A0], tasks = [], sel_priority = Low,
            sel_category = [], sel_reminderDate = None, editingTask = None\<rparr>"]
    by simp
qed

lemma trim_letter_a: "trim [0x61] = [0x61]"
  by (simp add: trim_def is_white_space_def white_space_def)

lemma trim_letter_b: "trim [0x62] = [0x62]"
  by (simp add: trim_def is_white_space_def white_space_def)

lemma trim_empty: "trim [] = []"
  by (simp add: trim_def)

text \<open>
  C1, as the code has it. When the text is not blank, the reminder is strictly later
  than the clock and the scheduling request is rejected, the rejection leaves the
  \<open>try\<close> block before \<open>setTasks\<close>: nothing is appended, the form is not reset, and
  the failure is logged and shown in the alert \<open>Failed to add task\<close>.
\<close>

theorem addTask_schedule_failure_aborts:
  assumes "trim (task st) \<noteq> []"
    and "sel_reminderDate st = Some d"
    and "new_date e < d"
    and "schedule_result e = Inl err"
  shows "addTask e st =
    (st, [ScheduleNotification (trim (task st)) (date_now e) d,
          ConsoleError ''Error adding task:'' err, Alert ''Error'' ''Failed to add task''])"
  using assms by (simp add: addTask_def addTask_try_def truthy_string_def)

theorem addTask_schedule_failure_aborts_witness:
  "trim [0x61] \<noteq> []
   \<and> (1700000000001::int) < 1700000600000
   \<and> addTask \<lparr>date_now = 1700000000000, new_date = 1700000000001,
               schedule_result = Inl ''scheduling failed'', cancel_result = Inr ()\<rparr>
        \<lparr>task = [0x61], tasks = [], sel_priority = Low, sel_category = [],
         sel_reminderDate = Some 1700000600000, editingTask = None\<rparr>
     = (\<lparr>task = [0x61], tasks = [], sel_priority = Low, sel_category = [],
         sel_reminderDate = Some 1700000600000, editingTask = None\<rparr>,
        [ScheduleNotification [0x61] 1700000000000 1700000600000,
         ConsoleError ''Error adding task:'' ''scheduling failed'',
         Alert ''Error'' ''Failed to add task''])"
  using addTask_schedule_failure_aborts
    [of "\<lparr>task = [0x61], tasks = [], sel_priority = Low, sel_category = [],
          sel_reminderDate = Some 1700000600000, editingTask = None\<rparr>"
        1700000600000
        "\<lparr>date_now = 1700000000000, new_date = 1700000000001,
          schedule_result = Inl ''scheduling failed'', cancel_result = Inr ()\<rparr>"
        "''scheduling failed''"]
  by (simp add: trim_letter_a)

text \<open>
  The claim C1 as the specification states it (the task is appended all the same) fails:
  after a rejected scheduling request the collection, empty before, is still empty.
\<close>

theorem addTask_schedule_failure_not_appended:
  "tasks (fst (addTask
      \<lparr>date_now = 1700000000000, new_date = 1700000000001,
        schedule_result = Inl ''scheduling failed'', cancel_result = Inr ()\<rparr>
      \<lparr>task = [0x61], tasks = [], sel_priority = Low, sel_category = [],
        sel_reminderDate = Some 1700000600000, editingTask = None\<rparr>)) = []"
  by (simp add: addTask_def addTask_try_def truthy_string_def trim_letter_a)

text \<open>
  C10. With a text that is not blank and a reminder that is not strictly later than the
  clock, the task is appended with that reminder kept in \<open>reminderDate\<close> and without
  \<open>notificationId\<close>, and no request reaches the notification service (there is no
  effect at all).
\<close>

theorem addTask_past_reminder_kept:
  assumes "trim (task st) \<noteq> []"
    and "sel_reminderDate st = Some d"
    and "\<not> new_date e < d"
  shows "addTask e st =
    (resetForm (st\<lparr>tasks := tasks st @
        [\<lparr>task_id = date_now e, task_text = trim (task st), completed = False,
          priority = sel_priority st, category = trim (sel_category st),
          reminderDate = Some d, notificationId = None\<rparr>]\<rparr>), [])"
  using assms by (simp add: addTask_def addTask_try_def truthy_string_def)

theorem addTask_past_reminder_kept_witness:
  "trim [0x61] \<noteq> []
   \<and> \<not> (1700000000001::int) < 1700000000001
   \<and> addTask \<lparr>date_now = 1700000000000, new_date = 1700000000001,
               schedule_result = Inr [0x6E, 0x31], cancel_result = Inr ()\<rparr>
        \<lparr>task = [0x61], tasks = [], sel_priority = High, sel_category = [],
         sel_reminderDate = Some 1700000000001, editingTask = None\<rparr>
     = (\<lparr>task = [], tasks =
          [\<lparr>task_id = 1700000000000, task_text = [0x61], completed = False,
            priority = High, category = [], reminderDate = Some 1700000000001,
            notificationId = None\<rparr>],
         sel_priority = Low, sel_category = [], sel_reminderDate = None,
         editingTask = None\<rparr>, [])"
  using addTask_past_reminder_kept
    [of "\<lparr>task = [0x61], tasks = [], sel_priority = High, sel_category = [],
          sel_reminderDate = Some 1700000000001, editingTask = None\<rparr>"
        1700000000001
        "\<lparr>date_now = 1700000000000, new_date = 1700000000001,
          schedule_result = Inr [0x6E, 0x31], cancel_result = Inr ()\<rparr>"]
  by (simp add: trim_letter_a trim_empty resetForm_def)

subsection \<open>Updating and deleting\<close>

text \<open>
  C3, as the code has it. In an update of a task being edited whose \<open>notificationId\<close>
  is a non-empty string (and with a text that is not blank), the cancellation of the
  old notification is always the first request made, whatever the new reminder is.
  When that cancellation is rejected the update is abandoned: the state is unchanged
  (no field is replaced, editing mode is kept), and the failure is logged and shown in
  the alert \<open>Failed to update task\<close>.
\<close>

theorem updateTask_cancel_failure_aborts:
  assumes "editingTask st = Some et"
    and "trim (task st) \<noteq> []"
    and "notificationId et = Some n"
    and "n \<noteq> []"
  shows "(\<exists>fx. snd (updateTask e st) = CancelNotification n # fx)
    \<and> (cancel_result e = Inl err \<longrightarrow>
         updateTask e st =
           (st, [CancelNotification n, ConsoleError ''Error updating task:'' err,
                 Alert ''Error'' ''Failed to update task'']))"
  using assms
  by (auto simp add: updateTask_def updateTask_try_def truthy_string_def truthy_id_def Let_def
      split: sum.splits option.splits prod.splits)

theorem updateTask_cancel_failure_aborts_witness:
  "trim [0x62] \<noteq> []
   \<and> updateTask \<lparr>date_now = 1700000000000, new_date = 1700000000001,
                  schedule_result = Inr [0x6E, 0x32],
                  cancel_result = Inl ''cancellation failed''\<rparr>
        \<lparr>task = [0x62], tasks = [
       \<lparr>task_id = 1, task_text = [0x61], completed = False, priority = Low, category = [],
        reminderDate = Some 1700000600000, notificationId = Some [0x6E, 0x31]\<rparr>], sel_priority = Low, sel_category = [],
         sel_reminderDate = Some 1700000600000, editingTask = Some
       \<lparr>task_id = 1, task_text = [0x61], completed = False, priority = Low, category = [],
        reminderDate = Some 1700000600000, notificationId = Some [0x6E, 0x31]\<rparr>\<rparr>
     = (\<lparr>task = [0x62], tasks = [
       \<lparr>task_id = 1, task_text = [0x61], completed = False, priority = Low, category = [],
        reminderDate = Some 1700000600000, notificationId = Some [0x6E, 0x31]\<rparr>], sel_priority = Low, sel_category = [],
         sel_reminderDate = Some 1700000600000, editingTask = Some
       \<lparr>task_id = 1, task_text = [0x61], completed = False, priority = Low, category = [],
        reminderDate = Some 1700000600000, notificationId = Some [0x6E, 0x31]\<rparr>\<rparr>,
        [CancelNotification [0x6E, 0x31],
         ConsoleError ''Error updating task:'' ''cancellation failed'',
         Alert ''Error'' ''Failed to update task''])"
  using updateTask_cancel_failure_aborts
    [of "\<lparr>task = [0x62], tasks = [
       \<lparr>task_id = 1, task_text = [0x61], completed = False, priority = Low, category = [],
        reminderDate = Some 1700000600000, notificationId = Some [0x6E, 0x31]\<rparr>], sel_priority = Low, sel_category = [],
          sel_reminderDate = Some 1700000600000, editingTask = Some
       \<lparr>task_id = 1, task_text = [0x61], completed = False, priority = Low, category = [],
        reminderDate = Some 1700000600000, notificationId = Some [0x6E, 0x31]\<rparr>\<rparr>"
        "\<lparr>task_id = 1, task_text = [0x61], completed = False, priority = Low, category = [],
        reminderDate = Some 1700000600000, notificationId = Some [0x6E, 0x31]\<rparr>"
        "[0x6E, 0x31]"
        "\<lparr>date_now = 1700000000000, new_date = 1700000000001,
          schedule_result = Inr [0x6E, 0x32],
          cancel_result = Inl ''cancellation failed''\<rparr>"
        "''cancellation failed''"]
  by (simp add: trim_letter_b)

text \<open>
  The claim C3 as the specification states it (a failed cancellation does not block the
  update) fails: the task edited from text \<open>a\<close> to text \<open>b\<close> keeps the text \<open>a\<close>
  when the cancellation is rejected.
\<close>

theorem updateTask_cancel_failure_blocks:
  "map task_text (tasks (fst (updateTask
      \<lparr>date_now = 1700000000000, new_date = 1700000000001,
        schedule_result = Inr [0x6E, 0x32], cancel_result = Inl ''cancellation failed''\<rparr>
      \<lparr>task = [0x62], tasks = [
       \<lparr>task_id = 1, task_text = [0x61], completed = False, priority = Low, category = [],
        reminderDate = Some 1700000600000, notificationId = Some [0x6E, 0x31]\<rparr>], sel_priority = Low, sel_category = [],
        sel_reminderDate = Some 1700000600000, editingTask = Some
       \<lparr>task_id = 1, task_text = [0x61], completed = False, priority = Low, category = [],
        reminderDate = Some 1700000600000, notificationId = Some [0x6E, 0x31]\<rparr>\<rparr>))) = [[0x61]]"
  by (simp add: updateTask_def updateTask_try_def truthy_string_def truthy_id_def
      trim_letter_b)

text \<open>
  C2, as the code has it. Deleting a task whose \<open>notificationId\<close> is a non-empty string
  first requests the cancellation. When the cancellation is rejected, \<open>deleteTask\<close>
  ends with that rejection and the collection is unchanged: the task is not removed.
  When it succeeds, every task with that id is removed.
\<close>

theorem deleteTask_cancel_outcome:
  assumes "find (\<lambda>t. task_id t = i) (tasks st) = Some t"
    and "notificationId t = Some n"
    and "n \<noteq> []"
  shows "(cancel_result e = Inl err \<longrightarrow>
           deleteTask e i st = (st, [CancelNotification n], Inl err))
    \<and> (cancel_result e = Inr () \<longrightarrow>
         deleteTask e i st =
           (st\<lparr>tasks := filter (\<lambda>t. task_id t \<noteq> i) (tasks st)\<rparr>,
            [CancelNotification n], Inr ()))"
  using assms by (simp add: deleteTask_def truthy_id_def truthy_string_def)

theorem deleteTask_cancel_outcome_witness:
  "find (\<lambda>t. task_id t = 1) [
       \<lparr>task_id = 1, task_text = [0x61], completed = False, priority = Low, category = [],
        reminderDate = Some 1700000600000, notificationId = Some [0x6E, 0x31]\<rparr>] = Some
       \<lparr>task_id = 1, task_text = [0x61], completed = False, priority = Low, category = [],
        reminderDate = Some 1700000600000, notificationId = Some [0x6E, 0x31]\<rparr>
   \<and> deleteTask \<lparr>date_now = 1700000000000, new_date = 1700000000001,
                  schedule_result = Inr [0x6E, 0x32],
                  cancel_result = Inl ''cancellation failed''\<rparr> 1
        \<lparr>task = [], tasks = [
       \<lparr>task_id = 1, task_text = [0x61], completed = False, priority = Low, category = [],
        reminderDate = Some 1700000600000, notificationId = Some [0x6E, 0x31]\<rparr>], sel_priority = Low, sel_category = [],
         sel_reminderDate = None, editingTask = None\<rparr>
     = (\<lparr>task = [], tasks = [
       \<lparr>task_id = 1, task_text = [0x61], completed = False, priority = Low, category = [],
        reminderDate = Some 1700000600000, notificationId = Some [0x6E, 0x31]\<rparr>], sel_priority = Low, sel_category = [],
         sel_reminderDate = None, editingTask = None\<rparr>,
        [CancelNotification [0x6E, 0x31]], Inl ''cancellation failed'')"
  using deleteTask_cancel_outcome
    [of 1
        "\<lparr>task = [], tasks = [
       \<lparr>task_id = 1, task_text = [0x61], completed = False, priority = Low, category = [],
        reminderDate = Some 1700000600000, notificationId = Some [0x6E, 0x31]\<rparr>], sel_priority = Low, sel_category = [],
          sel_reminderDate = None, editingTask = None\<rparr>"
        "\<lparr>task_id = 1, task_text = [0x61], completed = False, priority = Low, category = [],
        reminderDate = Some 1700000600000, notificationId = Some [0x6E, 0x31]\<rparr>"
        "[0x6E, 0x31]"
        "\<lparr>date_now = 1700000000000, new_date = 1700000000001,
          schedule_result = Inr [0x6E, 0x32],
          cancel_result = Inl ''cancellation failed''\<rparr>"
        "''cancellation failed''"]
  by simp

text \<open>
  The claim C2 as the specification states it (the task is removed whatever the
  cancellation does) fails: after a rejected cancellation the task with id 1 is still
  in the collection.
\<close>

theorem deleteTask_cancel_failure_keeps_task:
  "map task_id (tasks (fst (deleteTask
      \<lparr>date_now = 1700000000000, new_date = 1700000000001,
        schedule_result = Inr [0x6E, 0x32], cancel_result = Inl ''cancellation failed''\<rparr> 1
      \<lparr>task = [], tasks = [
       \<lparr>task_id = 1, task_text = [0x61], completed = False, priority = Low, category = [],
        reminderDate = Some 1700000600000, notificationId = Some [0x6E, 0x31]\<rparr>], sel_priority = Low, sel_category = [],
        sel_reminderDate = None, editingTask = None\<rparr>))) = [1]"
  by (simp add: deleteTask_def truthy_id_def truthy_string_def)

subsection \<open>The displayed list\<close>

lemma insert_sorted_insort_key:
  assumes "\<And>x y. (cmp x y \<le> 0) = (k x \<le> k y)"
  shows "insert_sorted cmp x ys = insort_key k x ys"
  by (induction ys) (simp_all add: assms)

lemma array_sort_sort_key:
  assumes "\<And>x y. (cmp x y \<le> 0) = (k x \<le> (k y :: int))"
  shows "array_sort cmp xs = sort_key k xs"
  unfolding array_sort_def sort_key_def
  using insert_sorted_insort_key[of cmp k, OF assms] by (induction xs) simp_all

lemma array_sort_Priority:
  "array_sort (compareFn Sort_Priority) xs = sort_key (\<lambda>t. - priorityOrder (priority t)) xs"
  by (rule array_sort_sort_key) (simp add: compareFn_def)

lemma array_sort_Date: "array_sort (compareFn Sort_Date) xs = sort_key getTime_or_0 xs"
  by (rule array_sort_sort_key) (simp add: compareFn_def)

lemma priorityOrder_eq_iff: "priorityOrder p = priorityOrder q \<longleftrightarrow> p = q"
  by (cases p; cases q) simp_all

lemma getTime_or_0_Some: "reminderDate t = Some d \<Longrightarrow> getTime_or_0 t = d"
  by (simp add: getTime_or_0_def)

lemma present_dates_Cons:
  "present_dates (x # xs) =
     (case reminderDate x of None \<Rightarrow> [] | Some d \<Rightarrow> [d]) @ present_dates xs"
  by (simp add: present_dates_def)

lemma present_dates_origin:
  "d \<in> set (present_dates xs) \<Longrightarrow> \<exists>t\<in>set xs. reminderDate t = Some d"
  by (induction xs) (auto simp: present_dates_Cons present_dates_def split: option.splits)

lemma present_dates_sorted:
  "sorted (map getTime_or_0 xs) \<Longrightarrow> sorted (present_dates xs)"
proof (induction xs)
  case Nil
  then show ?case by (simp add: present_dates_def)
next
  case (Cons x xs)
  then have IH: "sorted (present_dates xs)" by simp
  show ?case
  proof (cases "reminderDate x")
    case None
    then show ?thesis using IH by (simp add: present_dates_Cons)
  next
    case (Some dx)
    have "dx \<le> d" if "d \<in> set (present_dates xs)" for d
    proof -
      from that obtain t where t: "t \<in> set xs" "reminderDate t = Some d"
        using present_dates_origin by blast
      from Cons.prems t(1) have "getTime_or_0 x \<le> getTime_or_0 t" by auto
      then show ?thesis using Some t(2) by (simp add: getTime_or_0_Some)
    qed
    then show ?thesis using IH Some by (simp add: present_dates_Cons)
  qed
qed

lemma undated_first_sorted:
  assumes "sorted (map getTime_or_0 xs)"
    and "\<forall>t\<in>set xs. \<forall>d. reminderDate t = Some d \<longrightarrow> 0 < d"
  shows "undated_first xs"
  using assms
proof (induction xs)
  case Nil
  then show ?case by simp
next
  case (Cons x xs)
  then have IH: "undated_first xs" by simp
  have "list_all has_reminder xs" if h: "has_reminder x"
  proof -
    from h obtain d where d: "reminderDate x = Some d" by (auto simp: has_reminder_def)
    with Cons.prems have "0 < d" by simp
    then have kx: "0 < getTime_or_0 x" using d by (simp add: getTime_or_0_def)
    have "has_reminder y" if "y \<in> set xs" for y
    proof -
      from Cons.prems(1) that have "getTime_or_0 x \<le> getTime_or_0 y" by auto
      with kx have "0 < getTime_or_0 y" by simp
      then show ?thesis
        by (auto simp: getTime_or_0_def has_reminder_def split: option.splits)
    qed
    then show ?thesis by (simp add: list_all_iff)
  qed
  with IH show ?case by simp
qed

text \<open>
  C4, as the code has it. Sorted by date, the list is a rearrangement of the tasks that
  pass the filter in which the reminder dates that are present are non-decreasing. A
  missing reminder is compared as the time value 0 (1970-01-01T00:00:00Z), not as the
  earliest possible value: every task without a reminder comes before every task with
  one provided that the reminders present among the filtered tasks have a time value
  greater than 0.
\<close>

theorem filteredTasks_Date_order:
  "sorted (present_dates (filteredTasks f Sort_Date ts))
   \<and> ((\<forall>t\<in>set (filter (keep f) ts). \<forall>d. reminderDate t = Some d \<longrightarrow> 0 < d)
        \<longrightarrow> undated_first (filteredTasks f Sort_Date ts))
   \<and> mset (filteredTasks f Sort_Date ts) = mset (filter (keep f) ts)"
proof -
  let ?xs = "filter (keep f) ts"
  have eq: "filteredTasks f Sort_Date ts = sort_key getTime_or_0 ?xs"
    by (simp add: filteredTasks_def array_sort_Date)
  have s: "sorted (map getTime_or_0 (sort_key getTime_or_0 ?xs))"
    by (rule sorted_sort_key)
  have a: "sorted (present_dates (sort_key getTime_or_0 ?xs))"
    using s by (rule present_dates_sorted)
  have b: "undated_first (sort_key getTime_or_0 ?xs)"
    if "\<forall>t\<in>set ?xs. \<forall>d. reminderDate t = Some d \<longrightarrow> 0 < d"
    using s that by (intro undated_first_sorted) simp_all
  show ?thesis unfolding eq using a b by simp
qed

theorem filteredTasks_Date_order_witness:
  "(0::int) < 1700000600000 \<and> (0::int) < 1700000300000
   \<and> sorted (present_dates (filteredTasks Filter_Pending Sort_Date sample_tasks))
   \<and> undated_first (filteredTasks Filter_Pending Sort_Date sample_tasks)
   \<and> map task_id (filteredTasks Filter_Pending Sort_Date sample_tasks) = [4, 3, 1]"
proof -
  have run: "map task_id (filteredTasks Filter_Pending Sort_Date sample_tasks) = [4, 3, 1]"
    by (simp add: sample_tasks_def filteredTasks_def keep_def array_sort_def compareFn_def
        getTime_or_0_def)
  have pos: "\<forall>t\<in>set (filter (keep Filter_Pending) sample_tasks).
               \<forall>d. reminderDate t = Some d \<longrightarrow> 0 < d"
    by (simp add: sample_tasks_def keep_def)
  show ?thesis
    using run pos filteredTasks_Date_order [of Filter_Pending sample_tasks]
    by simp
qed

text \<open>
  The claim C4 as the specification states it fails on a reminder before 1970: the
  task with the reminder of time value -1 is put before the task without a reminder.
\<close>

theorem filteredTasks_Date_undated_not_first:
  "\<not> undated_first (filteredTasks Filter_All Sort_Date
       [\<lparr>task_id = 1, task_text = [0x61], completed = False, priority = Low, category = [],
         reminderDate = None, notificationId = None\<rparr>,
       \<lparr>task_id = 2, task_text = [0x62], completed = False, priority = Low, category = [],
         reminderDate = Some (-1), notificationId = None\<rparr>])"
  by (simp add: filteredTasks_def keep_def array_sort_def compareFn_def getTime_or_0_def
      has_reminder_def)

text \<open>
  C5. Sorted by priority, the list is non-increasing in the weight, and the weights are
  High 3, Medium 2, Low 1: no task comes before a task of a higher priority (of two tasks
  in the list, the earlier one is High, or the later one is Low, or both have the same
  priority). The sort is stable: for each priority, the tasks of that priority are in
  the order they have in the filtered sequence. The list is a rearrangement of the
  filtered sequence.
\<close>

theorem filteredTasks_Priority_stable:
  "priorityOrder High = 3 \<and> priorityOrder Medium = 2 \<and> priorityOrder Low = 1
   \<and> sorted_wrt (\<lambda>a b. priorityOrder (priority a) \<ge> priorityOrder (priority b))
        (filteredTasks f Sort_Priority ts)
   \<and> sorted_wrt (\<lambda>a b. priority a = High \<or> priority b = Low \<or> priority a = priority b)
        (filteredTasks f Sort_Priority ts)
   \<and> (\<forall>p. filter (\<lambda>t. priority t = p) (filteredTasks f Sort_Priority ts)
           = filter (\<lambda>t. priority t = p) (filter (keep f) ts))
   \<and> mset (filteredTasks f Sort_Priority ts) = mset (filter (keep f) ts)"
proof -
  let ?k = "\<lambda>t. - priorityOrder (priority t)"
  let ?xs = "filter (keep f) ts"
  have eq: "filteredTasks f Sort_Priority ts = sort_key ?k ?xs"
    by (simp add: filteredTasks_def array_sort_Priority)
  have "sorted (map ?k (sort_key ?k ?xs))"
    by (rule sorted_sort_key)
  then have a: "sorted_wrt (\<lambda>a b. priorityOrder (priority a) \<ge> priorityOrder (priority b))
                  (sort_key ?k ?xs)"
    by (simp add: sorted_wrt_map)
  have rank: "priority a = High \<or> priority b = Low \<or> priority a = priority b"
    if "priorityOrder (priority a) \<ge> priorityOrder (priority b)" for a b :: Task
    using that by (cases "priority a"; cases "priority b") simp_all
  have a': "sorted_wrt (\<lambda>a b. priority a = High \<or> priority b = Low \<or> priority a = priority b)
                  (sort_key ?k ?xs)"
    using a rank by (rule sorted_wrt_mono_rel [rotated])
  have b: "filter (\<lambda>t. priority t = p) (sort_key ?k ?xs) = filter (\<lambda>t. priority t = p) ?xs"
    for p
  proof -
    have "filter (\<lambda>t. ?k t = - priorityOrder p) (sort_key ?k ?xs)
            = filter (\<lambda>t. ?k t = - priorityOrder p) ?xs"
      by (rule sort_key_stable)
    then show ?thesis by (simp add: priorityOrder_eq_iff)
  qed
  show ?thesis unfolding eq using a a' b by simp
qed

text \<open>
  Five pending tasks of priorities Low, High, Medium, Low, High, in this order, come out
  as High, High, Medium, Low, Low, each group in its order of entry.
\<close>

theorem filteredTasks_Priority_stable_witness:
  "map task_id (filteredTasks Filter_Pending Sort_Priority
        [\<lparr>task_id = 1, task_text = [0x61], completed = False, priority = Low,
          category = [], reminderDate = None, notificationId = None\<rparr>,
         \<lparr>task_id = 2, task_text = [0x62], completed = False, priority = High,
          category = [], reminderDate = None, notificationId = None\<rparr>,
         \<lparr>task_id = 3, task_text = [0x63], completed = False, priority = Medium,
          category = [], reminderDate = None, notificationId = None\<rparr>,
         \<lparr>task_id = 4, task_text = [0x64], completed = False, priority = Low,
          category = [], reminderDate = None, notificationId = None\<rparr>,
         \<lparr>task_id = 5, task_text = [0x65], completed = False, priority = High,
          category = [], reminderDate = None, notificationId = None\<rparr>]) = [2, 5, 3, 1, 4]
   \<and> map priority (filteredTasks Filter_Pending Sort_Priority
        [\<lparr>task_id = 1, task_text = [0x61], completed = False, priority = Low,
          category = [], reminderDate = None, notificationId = None\<rparr>,
         \<lparr>task_id = 2, task_text = [0x62], completed = False, priority = High,
          category = [], reminderDate = None, notificationId = None\<rparr>,
         \<lparr>task_id = 3, task_text = [0x63], completed = False, priority = Medium,
          category = [], reminderDate = None, notificationId = None\<rparr>,
         \<lparr>task_id = 4, task_text = [0x64], completed = False, priority = Low,
          category = [], reminderDate = None, notificationId = None\<rparr>,
         \<lparr>task_id = 5, task_text = [0x65], completed = False, priority = High,
          category = [], reminderDate = None, notificationId = None\<rparr>]) = [High, High, Medium, Low, Low]
   \<and> sorted_wrt (\<lambda>a b. priority a = High \<or> priority b = Low \<or> priority a = priority b)
        (filteredTasks Filter_Pending Sort_Priority
        [\<lparr>task_id = 1, task_text = [0x61], completed = False, priority = Low,
          category = [], reminderDate = None, notificationId = None\<rparr>,
         \<lparr>task_id = 2, task_text = [0x62], completed = False, priority = High,
          category = [], reminderDate = None, notificationId = None\<rparr>,
         \<lparr>task_id = 3, task_text = [0x63], completed = False, priority = Medium,
          category = [], reminderDate = None, notificationId = None\<rparr>,
         \<lparr>task_id = 4, task_text = [0x64], completed = False, priority = Low,
          category = [], reminderDate = None, notificationId = None\<rparr>,
         \<lparr>task_id = 5, task_text = [0x65], completed = False, priority = High,
          category = [], reminderDate = None, notificationId = None\<rparr>])"
proof -
  have run: "filteredTasks Filter_Pending Sort_Priority
        [\<lparr>task_id = 1, task_text = [0x61], completed = False, priority = Low,
          category = [], reminderDate = None, notificationId = None\<rparr>,
         \<lparr>task_id = 2, task_text = [0x62], completed = False, priority = High,
          category = [], reminderDate = None, notificationId = None\<rparr>,
         \<lparr>task_id = 3, task_text = [0x63], completed = False, priority = Medium,
          category = [], reminderDate = None, notificationId = None\<rparr>,
         \<lparr>task_id = 4, task_text = [0x64], completed = False, priority = Low,
          category = [], reminderDate = None, notificationId = None\<rparr>,
         \<lparr>task_id = 5, task_text = [0x65], completed = False, priority = High,
          category = [], reminderDate = None, notificationId = None\<rparr>]
      = [\<lparr>task_id = 2, task_text = [0x62], completed = False, priority = High,
          category = [], reminderDate = None, notificationId = None\<rparr>,
         \<lparr>task_id = 5, task_text = [0x65], completed = False, priority = High,
          category = [], reminderDate = None, notificationId = None\<rparr>,
         \<lparr>task_id = 3, task_text = [0x63], completed = False, priority = Medium,
          category = [], reminderDate = None, notificationId = None\<rparr>,
         \<lparr>task_id = 1, task_text = [0x61], completed = False, priority = Low,
          category = [], reminderDate = None, notificationId = None\<rparr>,
         \<lparr>task_id = 4, task_text = [0x64], completed = False, priority = Low,
          category = [], reminderDate = None, notificationId = None\<rparr>]"
    by (simp add: filteredTasks_def keep_def array_sort_def compareFn_def)
  show ?thesis
    using filteredTasks_Priority_stable [of Filter_Pending
        "[\<lparr>task_id = 1, task_text = [0x61], completed = False, priority = Low,
          category = [], reminderDate = None, notificationId = None\<rparr>,
         \<lparr>task_id = 2, task_text = [0x62], completed = False, priority = High,
          category = [], reminderDate = None, notificationId = None\<rparr>,
         \<lparr>task_id = 3, task_text = [0x63], completed = False, priority = Medium,
          category = [], reminderDate = None, notificationId = None\<rparr>,
         \<lparr>task_id = 4, task_text = [0x64], completed = False, priority = Low,
          category = [], reminderDate = None, notificationId = None\<rparr>,
         \<lparr>task_id = 5, task_text = [0x65], completed = False, priority = High,
          category = [], reminderDate = None, notificationId = None\<rparr>]"]
    by (simp add: run)
qed

text \<open>
  C9. Computing the displayed list leaves the stored collection alone. On the store of
  arrays: the result is a new array, different from the array of the collection; every
  array that was in the store, the collection among them, holds the same tasks in the
  same order afterwards; and the new array holds the list that \<open>filteredTasks\<close>
  computes.
\<close>

theorem filteredTasks_store_frame:
  assumes "a < length h"
  shows "\<exists>r h'. filteredTasks_store f s a h = Some (r, h')
           \<and> r \<noteq> a \<and> r < length h'
           \<and> take (length h) h' = h
           \<and> h' ! a = h ! a
           \<and> h' ! r = filteredTasks f s (h ! a)"
  using assms
  by (simp add: filteredTasks_store_def Array_filter_def Array_sort_def filteredTasks_def
      nth_append)

theorem filteredTasks_store_frame_witness:
  "(0::nat) < length [sample_tasks]
   \<and> map_option (\<lambda>(r, h'). (r, map (map task_id) h'))
        (filteredTasks_store Filter_All Sort_Priority 0 [sample_tasks])
     = Some (1, [[1, 2, 3, 4], [2, 4, 1, 3]])"
proof -
  have run: "map task_id (filteredTasks Filter_All Sort_Priority sample_tasks) = [2, 4, 1, 3]"
    by (simp add: sample_tasks_def filteredTasks_def keep_def array_sort_def compareFn_def)
  have ids: "map task_id sample_tasks = [1, 2, 3, 4]"
    by (simp add: sample_tasks_def)
  obtain r h' where res: "filteredTasks_store Filter_All Sort_Priority 0 [sample_tasks] = Some (r, h')"
    and r: "r \<noteq> 0" "r < length h'"
    and old: "take (length [sample_tasks]) h' = [sample_tasks]"
    and new: "h' ! r = filteredTasks Filter_All Sort_Priority ([sample_tasks] ! 0)"
    using filteredTasks_store_frame [of 0 "[sample_tasks]" Filter_All Sort_Priority]
    by auto
  have "filteredTasks_store Filter_All Sort_Priority 0 [sample_tasks]
          = Some (1, [sample_tasks, filteredTasks Filter_All Sort_Priority sample_tasks])"
    by (simp add: filteredTasks_store_def Array_filter_def Array_sort_def filteredTasks_def)
  with res have "r = 1" "h' = [sample_tasks, filteredTasks Filter_All Sort_Priority sample_tasks]"
    by simp_all
  then show ?thesis using res run ids by simp
qed

subsection \<open>Ids\<close>

text \<open>
  On a session without a waiting add, a press followed by the settling of its own
  scheduling call is one run of \<open>addTask\<close>.
\<close>

lemma step_sequential:
  "step (Settle 0) (step (Press e d) \<lparr>current = st, awaiting = [], console = []\<rparr>)
     = \<lparr>current = fst (addTask e (fill_form d st)), awaiting = [],
        console = snd (addTask e (fill_form d st))\<rparr>"
  by (simp add: addTask_def addTask_try_def new_Task_def Let_def split: option.splits sum.splits)


lemma tasks_fill_form [simp]: "tasks (fill_form d st) = tasks st"
  by (simp add: fill_form_def)

lemma task_fill_form [simp]: "task (fill_form d st) = draft_text d"
  by (simp add: fill_form_def)

lemma tasks_resetForm [simp]: "tasks (resetForm st) = tasks st"
  by (simp add: resetForm_def)

lemma task_id_new_Task [simp]: "task_id (new_Task e st) = date_now e"
  by (simp add: new_Task_def)







text \<open>
  Two presses of the same render, both waiting for their scheduling calls: each call
  writes the list of that render with its own task appended, so the add that settles
  last overwrites the other and one task is left.
\<close>

lemma overlapping_adds_keep_one:
  "map task_id (tasks (current (run_events
        [Press \<lparr>date_now = 1700000000000, new_date = 1700000000001,
             schedule_result = Inr [0x6E, 0x31], cancel_result = Inr ()\<rparr>
           \<lparr>draft_text = [0x61], draft_priority = Low, draft_category = [],
             draft_reminderDate = Some 1700000600000\<rparr>,
         Press \<lparr>date_now = 1700000000001, new_date = 1700000000002,
             schedule_result = Inr [0x6E, 0x32], cancel_result = Inr ()\<rparr>
           \<lparr>draft_text = [0x61], draft_priority = Low, draft_category = [],
             draft_reminderDate = Some 1700000600000\<rparr>,
         Settle 0, Settle 0]
        \<lparr>current =
           \<lparr>task = [], tasks = [], sel_priority = Low, sel_category = [],
             sel_reminderDate = None, editingTask = None\<rparr>,
          awaiting = [], console = []\<rparr>))) = [1700000000001]"
  by (simp add: Let_def fill_form_def resetForm_def new_Task_def truthy_string_def
      trim_letter_a)




subsection \<open>Persistence\<close>









end
